theory Spec2Isabelle
  imports Main "HOL-Library.Word"
begin

section \<open>Values, errors and outcomes\<close>

text \<open>
  The Consul store of \<^verbatim>\<open>pkg/store/consul.go\<close>. Byte slices are lists of 8-bit words,
  \<^verbatim>\<open>uint64\<close> indexes are 64-bit words, and a \<^verbatim>\<open>time.Duration\<close> is an integer
  (no arithmetic is done on it here).
\<close>

type_synonym bytes = "8 word list"
type_synonym uint64 = "64 word"
type_synonym duration = int

text \<open>
  The sentinel errors of the package, and \<open>BackendError\<close> for any error value handed back
  by the Consul API client (which can never be one of the package's own sentinels).
  A Go \<^verbatim>\<open>error\<close> result is an \<open>error option\<close>, \<open>None\<close> being \<^verbatim>\<open>nil\<close>.
\<close>

datatype error =
    ErrKeyNotFound
  | ErrKeyModified
  | ErrCannotLock
  | ErrWatchDoesNotExist
  | ErrSessionUndefined
  | BackendError string

text \<open>A call either returns or panics at run time.\<close>

datatype panic = IndexOutOfRange | NilDereference

datatype 'a outcome = Panics panic | Returns 'a

text \<open>A Go pointer: \<^verbatim>\<open>nil\<close> or a reference.\<close>

datatype 'a ptr = Nil | Ptr 'a

section \<open>The Consul API client (external collaborator)\<close>

record KVPair =
  Key :: string
  Value :: bytes
  ModifyIndex :: uint64
  Session :: string

record QueryOptions =
  WaitIndex :: uint64
  WaitTime :: duration

record QueryMeta =
  LastIndex :: uint64

text \<open>
  The API client is a parameter: each endpoint the store uses is a function of the
  backend's state \<open>'b\<close> that answers and moves the backend on. \<open>Inl msg\<close> is a non-nil
  \<^verbatim>\<open>err\<close>; a \<open>Nil\<close> pair with no error is a key that does not exist.
\<close>

record 'b api =
  KV_Get :: "string \<Rightarrow> QueryOptions ptr \<Rightarrow> 'b \<Rightarrow> (string + KVPair ptr \<times> QueryMeta) \<times> 'b"
  KV_List :: "string \<Rightarrow> 'b \<Rightarrow> (string + KVPair list \<times> QueryMeta) \<times> 'b"
  KV_CAS :: "KVPair \<Rightarrow> 'b \<Rightarrow> (string + bool) \<times> 'b"
  KV_DeleteCAS :: "KVPair \<Rightarrow> 'b \<Rightarrow> (string + bool) \<times> 'b"
  KV_Acquire :: "KVPair \<Rightarrow> 'b \<Rightarrow> (string + bool) \<times> 'b"
  Session_CreateNoChecks :: "'b \<Rightarrow> (string + string) \<times> 'b"
  Session_Destroy :: "string \<Rightarrow> 'b \<Rightarrow> string option \<times> 'b"

text \<open>The requests a store sends, in the order it sends them.\<close>

datatype call =
    KV_Get_call string "QueryOptions ptr"
  | KV_List_call string
  | KV_CAS_call KVPair
  | KV_DeleteCAS_call KVPair
  | KV_Acquire_call KVPair
  | Session_CreateNoChecks_call
  | Session_Destroy_call string

record 'b world =
  bst :: 'b
  calls :: "call list"

definition invoke :: "call \<Rightarrow> ('b \<Rightarrow> 'r \<times> 'b) \<Rightarrow> 'b world \<Rightarrow> 'r \<times> 'b world" where
  "invoke c f w = (case f (bst w) of (r, b) \<Rightarrow> (r, \<lparr>bst = b, calls = calls w @ [c]\<rparr>))"

section \<open>The store\<close>

record Watch =
  LastIndex :: uint64
  Interval :: duration
  EventChan :: nat

type_synonym tls_config = nat

text \<open>
  The fields of \<^verbatim>\<open>api.Config\<close> that the store writes. The store and the API library
  share one \<^verbatim>\<open>*api.Config\<close>, so whatever the library writes into it is what the store
  holds afterwards. \<^verbatim>\<open>config.HttpClient\<close> is always the process-wide
  \<^verbatim>\<open>http.DefaultClient\<close>: its transport is state of the process, not of the
  configuration (\<open>Nil\<close> is a client with no transport of its own, \<open>Ptr t\<close> one whose
  transport carries the TLS configuration \<open>t\<close>).
\<close>

record Config =
  Address :: string
  Scheme :: string
  WaitTime :: duration

record http_Client =
  Transport :: "tls_config ptr"

datatype Session = SessionHandle

text \<open>
  The struct \<^verbatim>\<open>Consul\<close>. Both maps hold pointers, so an entry can be present and
  \<^verbatim>\<open>nil\<close>: \<open>watches s k = Some Nil\<close>. The \<^verbatim>\<open>Watch\<close> objects the entries point to
  live in \<open>heap\<close>, addressed by numbers; \<open>heap_next\<close> is the next unused address
  (channels take their identity from it too).
\<close>

record 'b Consul =
  config :: Config
  client :: "'b api"
  sessions :: "string \<rightharpoonup> Session ptr"
  watches :: "string \<rightharpoonup> nat ptr"
  heap :: "nat \<Rightarrow> Watch"
  heap_next :: nat

text \<open>
  Modelled from the spec: \<^verbatim>\<open>partialFormat\<close> is defined in another file of the package.
  The spec's data model says that the internal representation of a key strips a single
  leading separator and that no other normalization is performed.
\<close>

fun partialFormat :: "string \<Rightarrow> string" where
  "partialFormat [] = []"
| "partialFormat (c # cs) = (if c = CHR ''/'' then cs else c # cs)"

subsection \<open>Construction\<close>

datatype option_value =
    TLSOption "tls_config ptr"
  | DurationOption duration
  | OtherOption

definition SetTLS :: "tls_config ptr \<Rightarrow> Config \<times> http_Client \<Rightarrow> Config \<times> http_Client" where
  "SetTLS tls env =
     (case tls of
        Nil \<Rightarrow> env
      | Ptr t \<Rightarrow> ((fst env)\<lparr>Scheme := ''https''\<rparr>, (snd env)\<lparr>Transport := Ptr t\<rparr>))"

definition SetTimeout :: "duration \<Rightarrow> Config \<times> http_Client \<Rightarrow> Config \<times> http_Client" where
  "SetTimeout time env = ((fst env)\<lparr>Config.WaitTime := time\<rparr>, snd env)"

fun SetOptions :: "option_value list \<Rightarrow> Config \<times> http_Client \<Rightarrow> Config \<times> http_Client" where
  "SetOptions [] env = env"
| "SetOptions (TLSOption t # options) env = SetOptions options (SetTLS t env)"
| "SetOptions (DurationOption d # options) env = SetOptions options (SetTimeout d env)"
| "SetOptions (OtherOption # options) env = SetOptions options env"

text \<open>
  \<^verbatim>\<open>api.DefaultConfig\<close> and \<^verbatim>\<open>api.NewClient\<close> belong to the API library: they are the
  parameters \<open>DefaultConfig\<close> and \<open>NewClient\<close>, and \<open>DefaultClient\<close> is
  \<^verbatim>\<open>http.DefaultClient\<close> as the call finds it. \<^verbatim>\<open>NewClient\<close> is handed the pointer to
  the configuration (and through it the HTTP client): it answers with a client or an
  error, and with the configuration and the HTTP client as it leaves them. The store
  keeps that same configuration. Indexing an empty slice panics. \<open>new_store\<close> is the
  struct with its two maps made and nothing in them.
\<close>

definition new_store :: "Config \<Rightarrow> 'b api \<Rightarrow> 'b Consul" where
  "new_store cfg c =
     \<lparr>config = cfg, client = c, sessions = Map.empty, watches = Map.empty,
      heap = (\<lambda>_. \<lparr>Watch.LastIndex = 0, Interval = 0, EventChan = 0\<rparr>), heap_next = 0\<rparr>"

definition InitializeConsul ::
  "Config \<Rightarrow> (Config \<Rightarrow> http_Client \<Rightarrow> (string + 'b api) \<times> Config \<times> http_Client)
     \<Rightarrow> http_Client \<Rightarrow> string list \<Rightarrow> option_value list
     \<Rightarrow> ((error + 'b Consul) \<times> http_Client) outcome" where
  "InitializeConsul DefaultConfig NewClient DefaultClient endpoints options =
     (case endpoints of
        [] \<Rightarrow> Panics IndexOutOfRange
      | e # _ \<Rightarrow>
          (case SetOptions options
                  (DefaultConfig\<lparr>Address := e, Scheme := ''http''\<rparr>, DefaultClient) of
             (cfg, hc) \<Rightarrow>
               (case NewClient cfg hc of
                  (Inl err, cfg', hc') \<Rightarrow> Returns (Inl (BackendError err), hc')
                | (Inr c, cfg', hc') \<Rightarrow> Returns (Inr (new_store cfg' c), hc'))))"

subsection \<open>Reads\<close>

definition Get :: "'b Consul \<Rightarrow> string \<Rightarrow> 'b world \<Rightarrow> (error + bytes \<times> uint64) \<times> 'b world" where
  "Get s key w =
     (case invoke (KV_Get_call (partialFormat key) Nil)
             (KV_Get (client s) (partialFormat key) Nil) w of
        (Inl err, w') \<Rightarrow> (Inl (BackendError err), w')
      | (Inr (Nil, meta), w') \<Rightarrow> (Inl ErrKeyNotFound, w')
      | (Inr (Ptr pair, meta), w') \<Rightarrow> (Inr (Value pair, QueryMeta.LastIndex meta), w'))"

definition Exists :: "'b Consul \<Rightarrow> string \<Rightarrow> 'b world \<Rightarrow> (bool \<times> error option) \<times> 'b world" where
  "Exists s key w =
     (case Get s key w of
        (Inl err, w') \<Rightarrow>
          if err = ErrKeyNotFound then ((False, Some err), w') else ((True, None), w')
      | (Inr _, w') \<Rightarrow> ((True, None), w'))"

fun GetRange_loop :: "string \<Rightarrow> KVPair list \<Rightarrow> bytes list \<Rightarrow> bytes list" where
  "GetRange_loop prefix [] values = values"
| "GetRange_loop prefix (pair # pairs) values =
     (if Key pair = prefix then GetRange_loop prefix pairs values
      else GetRange_loop prefix pairs (values @ [Value pair]))"

definition GetRange :: "'b Consul \<Rightarrow> string \<Rightarrow> 'b world \<Rightarrow> (error + bytes list) \<times> 'b world" where
  "GetRange s prefix w =
     (case invoke (KV_List_call (partialFormat prefix))
             (KV_List (client s) (partialFormat prefix)) w of
        (Inl err, w') \<Rightarrow> (Inl (BackendError err), w')
      | (Inr (pairs, meta), w') \<Rightarrow> (Inr (GetRange_loop prefix pairs []), w'))"

subsection \<open>Atomic mutation\<close>

definition AtomicPut ::
  "'b Consul \<Rightarrow> string \<Rightarrow> bytes \<Rightarrow> bytes \<Rightarrow> uint64 \<Rightarrow> 'b world
     \<Rightarrow> (bool \<times> error option) \<times> 'b world" where
  "AtomicPut s key previous newValue index w =
     (let p = \<lparr>Key = partialFormat key, Value = newValue, ModifyIndex = index,
                Session = []\<rparr>
      in case invoke (KV_CAS_call p) (KV_CAS (client s) p) w of
           (Inl err, w') \<Rightarrow> ((False, Some (BackendError err)), w')
         | (Inr work, w') \<Rightarrow>
             if \<not> work then ((False, Some ErrKeyModified), w') else ((True, None), w'))"

definition AtomicDelete ::
  "'b Consul \<Rightarrow> string \<Rightarrow> bytes \<Rightarrow> uint64 \<Rightarrow> 'b world \<Rightarrow> (bool \<times> error option) \<times> 'b world" where
  "AtomicDelete s key oldValue index w =
     (let p = \<lparr>Key = partialFormat key, Value = [], ModifyIndex = index, Session = []\<rparr>
      in case invoke (KV_DeleteCAS_call p) (KV_DeleteCAS (client s) p) w of
           (Inl err, w') \<Rightarrow> ((False, Some (BackendError err)), w')
         | (Inr work, w') \<Rightarrow>
             if \<not> work then ((False, Some ErrKeyModified), w') else ((True, None), w'))"

subsection \<open>Sessions and locks\<close>

definition Acquire ::
  "'b Consul \<Rightarrow> string \<Rightarrow> bytes \<Rightarrow> 'b world \<Rightarrow> (string \<times> error option) \<times> 'b Consul \<times> 'b world" where
  "Acquire s key val w =
     (case invoke Session_CreateNoChecks_call (Session_CreateNoChecks (client s)) w of
        (Inl err, w1) \<Rightarrow> (([], Some (BackendError err)), s, w1)
      | (Inr sid, w1) \<Rightarrow>
          (let s1 = s\<lparr>sessions := (sessions s)(sid \<mapsto> Ptr SessionHandle)\<rparr>;
               p = \<lparr>Key = partialFormat key, Value = val, ModifyIndex = 0, Session = sid\<rparr>
           in case invoke (KV_Acquire_call p) (KV_Acquire (client s) p) w1 of
                (Inl err, w2) \<Rightarrow> (([], Some (BackendError err)), s1, w2)
              | (Inr work, w2) \<Rightarrow>
                  if \<not> work then (([], Some ErrCannotLock), s1, w2)
                  else ((sid, None), s1, w2)))"

text \<open>
  \<^verbatim>\<open>Release\<close> tests the presence of the key, then calls \<^verbatim>\<open>Destroy\<close> on the stored
  handle, drops what \<^verbatim>\<open>Destroy\<close> returns and overwrites the entry with \<^verbatim>\<open>nil\<close>.
  A \<^verbatim>\<open>nil\<close> handle has no client to send the request with: the call through it is a
  nil dereference.
\<close>

definition Release ::
  "'b Consul \<Rightarrow> string \<Rightarrow> 'b world \<Rightarrow> error option outcome \<times> 'b Consul \<times> 'b world" where
  "Release s sid w =
     (case sessions s sid of
        None \<Rightarrow> (Returns (Some ErrSessionUndefined), s, w)
      | Some Nil \<Rightarrow> (Panics NilDereference, s, w)
      | Some (Ptr session) \<Rightarrow>
          (case invoke (Session_Destroy_call sid) (Session_Destroy (client s) sid) w of
             (_, w') \<Rightarrow> (Returns None, s\<lparr>sessions := (sessions s)(sid \<mapsto> Nil)\<rparr>, w')))"

subsection \<open>The watch engine\<close>

text \<open>
  \<^verbatim>\<open>CancelWatch\<close> tests the presence of the key and overwrites the entry with
  \<^verbatim>\<open>nil\<close>. It sends nothing to the backend and nothing on any channel.
\<close>

definition CancelWatch :: "'b Consul \<Rightarrow> string \<Rightarrow> error option \<times> 'b Consul" where
  "CancelWatch s key =
     (case watches s (partialFormat key) of
        None \<Rightarrow> (Some ErrWatchDoesNotExist, s)
      | Some _ \<Rightarrow> (None, s\<lparr>watches := (watches s)(partialFormat key \<mapsto> Nil)\<rparr>))"

definition CancelWatchRange :: "'b Consul \<Rightarrow> string \<Rightarrow> error option \<times> 'b Consul" where
  "CancelWatchRange s prefix = CancelWatch s prefix"

text \<open>
  One iteration of the goroutine of \<^verbatim>\<open>waitForChange\<close>, in two parts, since other code
  can run while the long-poll read is in flight.

  \<open>waitForChange_lookup\<close> is the start of the loop body: the registry lookup and the
  query options built from the \<^verbatim>\<open>Watch\<close> found. The lookup tests only the presence
  of the key, so a \<^verbatim>\<open>nil\<close> entry passes it and the read of \<^verbatim>\<open>watch.LastIndex\<close> that
  follows is a nil dereference.

  \<open>waitForChange_poll\<close> is the rest: the long-poll read, the assignment to
  \<^verbatim>\<open>watch.LastIndex\<close> through the pointer obtained by the lookup, and the send on the
  channel; an absent key or a failed read leaves the loop and closes the channel.
\<close>

datatype lookup = NotRegistered | NilWatch | Registered nat QueryOptions

datatype event = Closed | Crashed | Sent uint64

definition waitForChange_lookup :: "'b Consul \<Rightarrow> string \<Rightarrow> lookup" where
  "waitForChange_lookup s key =
     (case watches s key of
        None \<Rightarrow> NotRegistered
      | Some Nil \<Rightarrow> NilWatch
      | Some (Ptr a) \<Rightarrow>
          Registered a \<lparr>WaitIndex = Watch.LastIndex (heap s a),
                        QueryOptions.WaitTime = Interval (heap s a)\<rparr>)"

definition waitForChange_poll ::
  "string \<Rightarrow> lookup \<Rightarrow> 'b Consul \<Rightarrow> 'b world \<Rightarrow> event \<times> 'b Consul \<times> 'b world" where
  "waitForChange_poll key lk s w =
     (case lk of
        NotRegistered \<Rightarrow> (Closed, s, w)
      | NilWatch \<Rightarrow> (Crashed, s, w)
      | Registered a option \<Rightarrow>
          (case invoke (KV_Get_call key (Ptr option)) (KV_Get (client s) key (Ptr option)) w of
             (Inl err, w') \<Rightarrow> (Closed, s, w')
           | (Inr (_, meta), w') \<Rightarrow>
               (Sent (QueryMeta.LastIndex meta),
                s\<lparr>heap := (heap s)(a := (heap s a)\<lparr>Watch.LastIndex := QueryMeta.LastIndex meta\<rparr>)\<rparr>,
                w')))"

text \<open>
  \<^verbatim>\<open>Watch\<close> stores a new \<^verbatim>\<open>Watch\<close>, with \<^verbatim>\<open>LastIndex\<close> zero, under the key.
\<close>

definition register :: "'b Consul \<Rightarrow> string \<Rightarrow> duration \<Rightarrow> 'b Consul" where
  "register s key interval =
     s\<lparr>watches := (watches s)(key \<mapsto> Ptr (Suc (heap_next s))),
       heap := (heap s)(Suc (heap_next s) :=
                 \<lparr>Watch.LastIndex = 0, Interval = interval, EventChan = heap_next s\<rparr>),
       heap_next := heap_next s + 2\<rparr>"

text \<open>
  A call of \<^verbatim>\<open>Watch\<close> is two goroutines: the caller's, which runs the body of
  \<^verbatim>\<open>Watch\<close>, and the one started by \<^verbatim>\<open>waitForChange\<close>. They share the store and
  the backend and meet on an unbuffered channel; nothing else orders them. The model
  keeps the place each of them has reached and lets a schedule, a list of threads, say
  which of the two moves next. A map access, a backend request with its answer and the
  hand-over on the channel are one move each. Other goroutines of the program (another
  call on the same key, a cancellation) are not part of a call.

  The goroutine is about to look the key up (\<open>Looking\<close>), has done so and is about to
  issue the long-poll read, or is inside it (\<open>Polling\<close>), is blocked on the send
  (\<open>Sending\<close>), has closed the channel and ended (\<open>Finished\<close>), or has panicked, which
  ends the program (\<open>Panicked\<close>).

  The caller is about to store the registration (\<open>Starting\<close>; the goroutine is already
  running), waits on the channel (\<open>Receiving\<close>), has received a value and is about to
  read the snapshot (\<open>Refreshing\<close>), has read it and is about to call the callback
  (\<open>Calling\<close>), has failed to read it and is about to store \<^verbatim>\<open>nil\<close> in the registry
  (\<open>Failing\<close>), or has returned (\<open>Returned\<close>).
\<close>

datatype thread = Caller | Goroutine

datatype goroutine_pc = Looking | Polling lookup | Sending uint64 | Finished | Panicked

datatype caller_pc =
    Starting
  | Receiving
  | Refreshing
  | Calling "bytes list"
  | Failing error
  | Returned "error option"

text \<open>
  The state of a call: the store, the backend, the two places, the arguments the callback
  has been called with (the callback is caller code: the model records its argument and
  nothing else), and the long-poll reads answered so far, each with the options it
  was issued with and the index it reported.
\<close>

record 'b exec =
  store :: "'b Consul"
  wld :: "'b world"
  goroutine :: goroutine_pc
  caller :: caller_pc
  delivered :: "bytes list list"
  reported :: "(QueryOptions \<times> uint64) list"

text \<open>
  A move of the goroutine of \<^verbatim>\<open>waitForChange\<close>. The send completes only when the
  caller is waiting on the channel; until then the goroutine does not move.
\<close>

definition goroutine_step :: "string \<Rightarrow> 'b exec \<Rightarrow> 'b exec" where
  "goroutine_step key c =
     (case goroutine c of
        Looking \<Rightarrow> c\<lparr>goroutine := Polling (waitForChange_lookup (store c) key)\<rparr>
      | Polling lk \<Rightarrow>
          (case waitForChange_poll key lk (store c) (wld c) of
             (Closed, s1, w1) \<Rightarrow> c\<lparr>store := s1, wld := w1, goroutine := Finished\<rparr>
           | (Crashed, s1, w1) \<Rightarrow> c\<lparr>goroutine := Panicked\<rparr>
           | (Sent idx, s1, w1) \<Rightarrow>
               c\<lparr>store := s1, wld := w1, goroutine := Sending idx,
                 reported := reported c @
                   (case lk of Registered a option \<Rightarrow> [(option, idx)] | _ \<Rightarrow> [])\<rparr>)
      | Sending idx \<Rightarrow>
          if caller c = Receiving then c\<lparr>goroutine := Looking, caller := Refreshing\<rparr> else c
      | Finished \<Rightarrow> c
      | Panicked \<Rightarrow> c)"

text \<open>
  The snapshot read of \<^verbatim>\<open>Watch\<close> and the argument it makes of it for the callback;
  \<^verbatim>\<open>WatchRange\<close> reads with \<^verbatim>\<open>GetRange\<close> and passes the values on.
\<close>

definition Watch_refresh ::
  "'b Consul \<Rightarrow> string \<Rightarrow> 'b world \<Rightarrow> (error + bytes list) \<times> 'b world" where
  "Watch_refresh s key w =
     (case Get s key w of
        (Inl err, w') \<Rightarrow> (Inl err, w')
      | (Inr (entry, _), w') \<Rightarrow> (Inr [entry], w'))"

text \<open>
  A move of the caller. The bodies of \<^verbatim>\<open>Watch\<close> and \<^verbatim>\<open>WatchRange\<close> differ only in the
  snapshot read, the parameter \<open>refresh\<close>. The loop over the channel ends when the
  channel is closed, and the call then returns \<^verbatim>\<open>nil\<close>; a failed snapshot read stores
  \<^verbatim>\<open>nil\<close> under the key and returns the error.
\<close>

definition caller_step ::
  "('b Consul \<Rightarrow> string \<Rightarrow> 'b world \<Rightarrow> (error + bytes list) \<times> 'b world)
     \<Rightarrow> string \<Rightarrow> duration \<Rightarrow> 'b exec \<Rightarrow> 'b exec" where
  "caller_step refresh key heartbeat c =
     (case caller c of
        Starting \<Rightarrow> c\<lparr>store := register (store c) key heartbeat, caller := Receiving\<rparr>
      | Receiving \<Rightarrow>
          (case goroutine c of
             Sending idx \<Rightarrow> c\<lparr>goroutine := Looking, caller := Refreshing\<rparr>
           | Finished \<Rightarrow> c\<lparr>caller := Returned None\<rparr>
           | _ \<Rightarrow> c)
      | Refreshing \<Rightarrow>
          (case refresh (store c) key (wld c) of
             (Inl err, w2) \<Rightarrow> c\<lparr>wld := w2, caller := Failing err\<rparr>
           | (Inr vals, w2) \<Rightarrow> c\<lparr>wld := w2, caller := Calling vals\<rparr>)
      | Calling vals \<Rightarrow> c\<lparr>delivered := delivered c @ [vals], caller := Receiving\<rparr>
      | Failing err \<Rightarrow>
          c\<lparr>store := (store c)\<lparr>watches := (watches (store c))(key \<mapsto> Nil)\<rparr>,
            caller := Returned (Some err)\<rparr>
      | Returned r \<Rightarrow> c)"

text \<open>Once the goroutine has panicked the program has ended: nothing moves any more.\<close>

definition step ::
  "('b Consul \<Rightarrow> string \<Rightarrow> 'b world \<Rightarrow> (error + bytes list) \<times> 'b world)
     \<Rightarrow> string \<Rightarrow> duration \<Rightarrow> thread \<Rightarrow> 'b exec \<Rightarrow> 'b exec" where
  "step refresh key heartbeat t c =
     (if goroutine c = Panicked then c
      else case t of
             Goroutine \<Rightarrow> goroutine_step key c
           | Caller \<Rightarrow> caller_step refresh key heartbeat c)"

fun run ::
  "('b Consul \<Rightarrow> string \<Rightarrow> 'b world \<Rightarrow> (error + bytes list) \<times> 'b world)
     \<Rightarrow> string \<Rightarrow> duration \<Rightarrow> thread list \<Rightarrow> 'b exec \<Rightarrow> 'b exec" where
  "run refresh key heartbeat [] c = c"
| "run refresh key heartbeat (t # ts) c =
     run refresh key heartbeat ts (step refresh key heartbeat t c)"

text \<open>
  \<^verbatim>\<open>Watch\<close> and \<^verbatim>\<open>WatchRange\<close> under a schedule: the key is formatted, the goroutine is
  started, and the two run from there. What the call has come to is read off the
  state: it has returned a result, the program has panicked before it could, or neither
  has happened yet within the schedule (\<open>None\<close>).
\<close>

definition Watch ::
  "thread list \<Rightarrow> 'b Consul \<Rightarrow> string \<Rightarrow> duration \<Rightarrow> 'b world \<Rightarrow> bytes list list
     \<Rightarrow> 'b exec" where
  "Watch schedule s key heartbeat w cb =
     run Watch_refresh (partialFormat key) heartbeat schedule
       \<lparr>store = s, wld = w, goroutine = Looking, caller = Starting, delivered = cb,
        reported = []\<rparr>"

definition WatchRange ::
  "thread list \<Rightarrow> 'b Consul \<Rightarrow> string \<Rightarrow> string \<Rightarrow> duration \<Rightarrow> 'b world
     \<Rightarrow> bytes list list \<Rightarrow> 'b exec" where
  "WatchRange schedule s prefix filt heartbeat w cb =
     run GetRange (partialFormat prefix) heartbeat schedule
       \<lparr>store = s, wld = w, goroutine = Looking, caller = Starting, delivered = cb,
        reported = []\<rparr>"

definition result :: "'b exec \<Rightarrow> error option outcome option" where
  "result c =
     (case caller c of
        Returned r \<Rightarrow> Some (Returns r)
      | _ \<Rightarrow> if goroutine c = Panicked then Some (Panics NilDereference) else None)"

subsection \<open>Invariants of a call\<close>


text \<open>
  A backend on which every long-poll read of the key fails: the goroutine never has a
  value to send, the caller never gets to a snapshot read, and once the registration is
  stored nothing removes it.
\<close>

definition never_sent :: "nat \<Rightarrow> string \<Rightarrow> 'b exec \<Rightarrow> bool" where
  "never_sent n key c \<longleftrightarrow>
     (goroutine c = Looking \<or> (\<exists>lk. goroutine c = Polling lk) \<or> goroutine c = Finished
        \<or> goroutine c = Panicked)
     \<and> (caller c = Starting \<and> heap_next (store c) = n
        \<or> (caller c = Receiving \<or> caller c = Returned None)
          \<and> watches (store c) key = Some (Ptr (Suc n)))"

section \<open>Concrete backends\<close>

text \<open>
  A backend whose answers are given by functions of the request and of the number of
  requests it has answered so far (its state); conditional writes, conditional deletes
  and lock acquisitions share one answer function. \<open>world0\<close> is that backend before
  its first request.
\<close>

definition scripted ::
  "(string \<Rightarrow> QueryOptions ptr \<Rightarrow> nat \<Rightarrow> string + KVPair ptr \<times> QueryMeta)
     \<Rightarrow> (string \<Rightarrow> nat \<Rightarrow> string + KVPair list \<times> QueryMeta)
     \<Rightarrow> (KVPair \<Rightarrow> nat \<Rightarrow> string + bool)
     \<Rightarrow> (nat \<Rightarrow> string + string) \<Rightarrow> nat api" where
  "scripted gets listing conds creates =
     \<lparr>KV_Get = (\<lambda>key q n. (gets key q n, Suc n)),
      KV_List = (\<lambda>p n. (listing p n, Suc n)),
      KV_CAS = (\<lambda>p n. (conds p n, Suc n)),
      KV_DeleteCAS = (\<lambda>p n. (conds p n, Suc n)),
      KV_Acquire = (\<lambda>p n. (conds p n, Suc n)),
      Session_CreateNoChecks = (\<lambda>n. (creates n, Suc n)),
      Session_Destroy = (\<lambda>sid n. (None, Suc n))\<rparr>"

definition world0 :: "nat world" where
  "world0 = \<lparr>bst = 0, calls = []\<rparr>"

definition config0 :: Config where
  "config0 = \<lparr>Address = ''127.0.0.1:8500'', Scheme = ''http'', Config.WaitTime = 0\<rparr>"

text \<open>A backend that cannot be reached: every request fails.\<close>

definition unreachable :: "nat api" where
  "unreachable =
     scripted (\<lambda>key q n. Inl ''connection refused'') (\<lambda>p n. Inl ''connection refused'')
       (\<lambda>p n. Inl ''connection refused'') (\<lambda>n. Inl ''connection refused'')"

text \<open>
  A backend that holds the keys \<open>foo\<close> and \<open>foo/a\<close>, both last modified at index 7:
  it lists them for every prefix of theirs and reads each of them. Nothing changes in
  it, so a long-poll read comes back when its wait time is over, with index 7. It
  refuses every conditional request and hands out the session \<open>s1\<close>.
\<close>

definition foo_pair :: KVPair where
  "foo_pair = \<lparr>Key = ''foo'', Value = [1], ModifyIndex = 7, Session = []\<rparr>"

definition foo_a_pair :: KVPair where
  "foo_a_pair = \<lparr>Key = ''foo/a'', Value = [2], ModifyIndex = 7, Session = []\<rparr>"

definition foo_backend :: "nat api" where
  "foo_backend =
     scripted
       (\<lambda>key q n. Inr (if key = ''foo'' then Ptr foo_pair
                       else if key = ''foo/a'' then Ptr foo_a_pair else Nil,
                       \<lparr>QueryMeta.LastIndex = 7\<rparr>))
       (\<lambda>p n. Inr (filter (\<lambda>pair. take (length p) (Key pair) = p) [foo_pair, foo_a_pair],
                     \<lparr>QueryMeta.LastIndex = 7\<rparr>))
       (\<lambda>p n. Inr False)
       (\<lambda>n. Inr ''s1'')"

text \<open>The same backend, granting every conditional request.\<close>

definition granting :: "nat api" where
  "granting = foo_backend\<lparr>KV_CAS := (\<lambda>p n. (Inr True, Suc n)),
     KV_DeleteCAS := (\<lambda>p n. (Inr True, Suc n)), KV_Acquire := (\<lambda>p n. (Inr True, Suc n))\<rparr>"


text \<open>
  A store on the backend \<open>c\<close> with a watch registered on the key \<open>foo\<close>, heartbeat 30
  (the Watch is the object at address 1), and the options of its first long-poll read.
\<close>

definition watching :: "nat api \<Rightarrow> nat Consul" where
  "watching c = register (new_store config0 c) ''foo'' 30"

definition first_poll :: QueryOptions where
  "first_poll = \<lparr>WaitIndex = 0, QueryOptions.WaitTime = 30\<rparr>"




section \<open>Basic facts\<close>

lemma client_new_store: "client (new_store cfg c) = c"
  by (simp add: new_store_def)

lemma SetOptions_Address: "Address (fst (SetOptions options env)) = Address (fst env)"
  by (induction options env rule: SetOptions.induct)
    (simp_all add: SetTLS_def SetTimeout_def split: ptr.splits)

lemma GetRange_loop_filter:
  "GetRange_loop p pairs vals = vals @ map Value (filter (\<lambda>pair. Key pair \<noteq> p) pairs)"
  by (induction pairs arbitrary: vals) simp_all

lemma GetRange_values:
  "fst (KV_List (client s) (partialFormat p) (bst w)) = Inr (pairs, meta)
     \<Longrightarrow> fst (GetRange s p w) = Inr (map Value (filter (\<lambda>pair. Key pair \<noteq> p) pairs))"
  by (auto simp: GetRange_def invoke_def GetRange_loop_filter split: prod.splits sum.splits)

lemma Exists_backend_error:
  "fst (KV_Get (client s) (partialFormat key) Nil (bst w)) = Inl e
     \<Longrightarrow> fst (Exists s key w) = (True, None)"
  by (auto simp: Exists_def Get_def invoke_def split: prod.splits sum.splits ptr.splits)

lemma CancelWatch_keeps_key:
  "fst (CancelWatch s key) = None
     \<Longrightarrow> watches (snd (CancelWatch s key)) (partialFormat key) = Some Nil
       \<and> fst (CancelWatch (snd (CancelWatch s key)) key) = None"
  by (simp add: CancelWatch_def split: option.splits)

subsection \<open>One iteration of the goroutine\<close>

lemma poll_result:
  assumes "waitForChange_poll key lk s w = (ev, s1, w1)"
  shows "client s1 = client s" and "watches s1 = watches s"
    and "ev = Closed \<or> ev = Crashed \<Longrightarrow> s1 = s"
    and "ev = Sent idx \<Longrightarrow> \<exists>a opt p m. lk = Registered a opt
           \<and> fst (KV_Get (client s) key (Ptr opt) (bst w)) = Inr (p, m)
           \<and> QueryMeta.LastIndex m = idx
           \<and> heap s1 = (heap s)(a := (heap s a)\<lparr>Watch.LastIndex := idx\<rparr>)"
  using assms
  by (auto simp: waitForChange_poll_def invoke_def split: prod.splits sum.splits lookup.splits)

lemma poll_failed:
  "fst (KV_Get (client s) key (Ptr opt) (bst w)) = Inl e
     \<Longrightarrow> fst (waitForChange_poll key (Registered a opt) s w) = Closed
       \<and> fst (snd (waitForChange_poll key (Registered a opt) s w)) = s"
  by (auto simp: waitForChange_poll_def invoke_def split: prod.splits sum.splits)



subsection \<open>Runs under a schedule\<close>









lemma never_sent_step:
  assumes fails: "\<forall>q b. \<exists>e. fst (KV_Get cl key (Ptr q) b) = Inl e"
    and cl: "client (store c) = cl"
    and inv: "never_sent n key c"
  shows "never_sent n key (step refresh key hb t c) \<and> client (store (step refresh key hb t c)) = cl"
proof (cases "goroutine c = Panicked")
  case True
  with cl inv show ?thesis by (simp add: step_def)
next
  case False
  show ?thesis
  proof (cases t)
    case Caller
    with False cl inv show ?thesis
      by (auto simp: step_def caller_step_def never_sent_def register_def
          split: caller_pc.splits goroutine_pc.splits)
  next
    case Goroutine
    show ?thesis
    proof (cases "goroutine c")
      case (Polling lk)
      obtain ev s1 w1 where poll: "waitForChange_poll key lk (store c) (wld c) = (ev, s1, w1)"
        by (cases "waitForChange_poll key lk (store c) (wld c)") auto
      have nosend: "ev = Closed \<or> ev = Crashed"
      proof (cases ev)
        case (Sent idx)
        from poll_result(4) [OF poll Sent] cl obtain q p m
          where "fst (KV_Get cl key (Ptr q) (bst (wld c))) = Inr (p, m)" by blast
        moreover from fails obtain e
          where "fst (KV_Get cl key (Ptr q) (bst (wld c))) = Inl e" by blast
        ultimately show ?thesis by simp
      qed simp_all
      with poll_result(3) [OF poll] have "s1 = store c" by simp
      with nosend False Goroutine Polling poll cl inv show ?thesis
        by (auto simp: step_def goroutine_step_def never_sent_def)
    next
      case (Sending idx)
      with inv show ?thesis by (simp add: never_sent_def)
    qed (use False Goroutine cl inv in \<open>auto simp: step_def goroutine_step_def never_sent_def\<close>)
  qed
qed

lemma never_sent_run:
  assumes fails: "\<forall>q b. \<exists>e. fst (KV_Get cl key (Ptr q) b) = Inl e"
  shows "client (store c) = cl \<Longrightarrow> never_sent n key c
    \<Longrightarrow> never_sent n key (run refresh key hb ts c)"
proof (induction ts arbitrary: c)
  case Nil
  then show ?case by simp
next
  case (Cons t ts)
  from never_sent_step [OF fails Cons.prems] Cons.IH show ?case by simp
qed

lemma never_sent_result:
  assumes "never_sent n key c"
  shows "result c \<noteq> Some (Returns (Some err))"
proof -
  from assms have "caller c = Starting \<or> caller c = Receiving \<or> caller c = Returned None"
    by (auto simp: never_sent_def)
  then show ?thesis by (auto simp: result_def)
qed

lemma never_sent_registered:
  "never_sent n key c \<Longrightarrow> caller c = Starting \<or> watches (store c) key = Some (Ptr (Suc n))"
  by (auto simp: never_sent_def)

section \<open>The claims\<close>

subsection \<open>C1: a failed read ends the watch\<close>

text \<open>
  C1 says that whenever a backend read issued for a watch fails, the loop terminates,
  the Watch leaves the registry and the error is the result of the blocking \<^verbatim>\<open>Watch\<close>
  (or \<^verbatim>\<open>WatchRange\<close>) call. The body of \<^verbatim>\<open>Watch\<close> does return the error of a failed
  snapshot read; the goroutine of \<^verbatim>\<open>waitForChange\<close> does not pass on the error of a
  failed long-poll read, it closes the channel. Against a backend that cannot be
  reached, the first long-poll read of a watch on \<open>/foo\<close> fails; the goroutine closes the
  channel, and \<^verbatim>\<open>Watch\<close> and \<^verbatim>\<open>WatchRange\<close> return \<^verbatim>\<open>nil\<close> with the store as the
  registration left it, the Watch still in the registry. Under every schedule of the
  two goroutines, the call never returns an error, and once the registration is stored
  the Watch stays registered.
\<close>

theorem Watch_poll_failure_returns_nil:
  "fst (KV_Get (client (watching unreachable)) ''foo'' (Ptr first_poll) (bst world0))
     = Inl ''connection refused''
   \<and> result (Watch [Caller, Goroutine, Goroutine, Caller] (new_store config0 unreachable)
        ''/foo'' 30 world0 []) = Some (Returns None)
   \<and> store (Watch [Caller, Goroutine, Goroutine, Caller] (new_store config0 unreachable)
        ''/foo'' 30 world0 []) = watching unreachable
   \<and> calls (wld (Watch [Caller, Goroutine, Goroutine, Caller] (new_store config0 unreachable)
        ''/foo'' 30 world0 [])) = [KV_Get_call ''foo'' (Ptr first_poll)]
   \<and> result (WatchRange [Caller, Goroutine, Goroutine, Caller] (new_store config0 unreachable)
        ''/foo'' [] 30 world0 []) = Some (Returns None)
   \<and> store (WatchRange [Caller, Goroutine, Goroutine, Caller] (new_store config0 unreachable)
        ''/foo'' [] 30 world0 []) = watching unreachable
   \<and> watches (watching unreachable) ''foo'' = Some (Ptr 1)
   \<and> (\<forall>schedule err.
        result (Watch schedule (new_store config0 unreachable) ''/foo'' 30 world0 [])
          \<noteq> Some (Returns (Some err))
        \<and> result (WatchRange schedule (new_store config0 unreachable) ''/foo'' [] 30 world0 [])
          \<noteq> Some (Returns (Some err)))
   \<and> (\<forall>schedule.
        caller (Watch schedule (new_store config0 unreachable) ''/foo'' 30 world0 []) = Starting
        \<or> watches (store (Watch schedule (new_store config0 unreachable) ''/foo'' 30 world0 []))
             ''foo'' = Some (Ptr 1))"
proof -
  have fails: "\<forall>q b. \<exists>e. fst (KV_Get unreachable ''foo'' (Ptr q) b) = Inl e"
    by (simp add: unreachable_def scripted_def)
  let ?c0 = "\<lparr>store = new_store config0 unreachable, wld = world0, goroutine = Looking,
      caller = Starting, delivered = [], reported = []\<rparr>"
  have start: "client (store ?c0) = unreachable" "never_sent 0 ''foo'' ?c0"
    by (simp_all add: never_sent_def new_store_def)
  have inv: "never_sent 0 ''foo'' (run refresh ''foo'' 30 schedule ?c0)" for refresh schedule
    by (rule never_sent_run [OF fails start])
  have one: "fst (KV_Get (client (watching unreachable)) ''foo'' (Ptr first_poll) (bst world0))
      = Inl ''connection refused''"
    by (simp add: watching_def register_def new_store_def unreachable_def scripted_def)
  have two: "result (Watch [Caller, Goroutine, Goroutine, Caller] (new_store config0 unreachable)
        ''/foo'' 30 world0 []) = Some (Returns None)"
    "store (Watch [Caller, Goroutine, Goroutine, Caller] (new_store config0 unreachable)
        ''/foo'' 30 world0 []) = watching unreachable"
    "calls (wld (Watch [Caller, Goroutine, Goroutine, Caller] (new_store config0 unreachable)
        ''/foo'' 30 world0 [])) = [KV_Get_call ''foo'' (Ptr first_poll)]"
    "result (WatchRange [Caller, Goroutine, Goroutine, Caller] (new_store config0 unreachable)
        ''/foo'' [] 30 world0 []) = Some (Returns None)"
    "store (WatchRange [Caller, Goroutine, Goroutine, Caller] (new_store config0 unreachable)
        ''/foo'' [] 30 world0 []) = watching unreachable"
    "watches (watching unreachable) ''foo'' = Some (Ptr 1)"
    by (simp_all add: Watch_def WatchRange_def result_def step_def goroutine_step_def
        caller_step_def waitForChange_lookup_def waitForChange_poll_def invoke_def watching_def
        first_poll_def register_def new_store_def unreachable_def scripted_def world0_def)
  have three: "result (Watch schedule (new_store config0 unreachable) ''/foo'' 30 world0 [])
          \<noteq> Some (Returns (Some err))
        \<and> result (WatchRange schedule (new_store config0 unreachable) ''/foo'' [] 30 world0 [])
          \<noteq> Some (Returns (Some err))" for schedule err
    using never_sent_result [OF inv [of Watch_refresh schedule], of err]
      never_sent_result [OF inv [of GetRange schedule], of err]
    by (simp add: Watch_def WatchRange_def)
  have four: "caller (Watch schedule (new_store config0 unreachable) ''/foo'' 30 world0 [])
        = Starting
      \<or> watches (store (Watch schedule (new_store config0 unreachable) ''/foo'' 30 world0 []))
           ''foo'' = Some (Ptr 1)" for schedule
    using never_sent_registered [OF inv [of Watch_refresh schedule]] by (simp add: Watch_def)
  from one two three four show ?thesis by blast
qed

subsection \<open>C2: the cursor of a watch\<close>




subsection \<open>C3: conditional writes and deletes\<close>

text \<open>
  C3. \<^verbatim>\<open>AtomicPut\<close> sends one conditional write for the formatted key, the new value
  and the expected index. It returns \<^verbatim>\<open>(true, nil)\<close> when the backend applies the write,
  \<^verbatim>\<open>(false, ErrKeyModified)\<close> when the backend rejects it, and \<^verbatim>\<open>false\<close> with the
  backend's own error when the request fails. \<^verbatim>\<open>AtomicDelete\<close> does the same with a
  conditional delete.
\<close>

theorem AtomicPut_AtomicDelete_contract:
  "(fst (KV_CAS (client s) \<lparr>Key = partialFormat key, Value = newValue, ModifyIndex = index,
       Session = []\<rparr> (bst w)) = Inr True
      \<longrightarrow> fst (AtomicPut s key previous newValue index w) = (True, None))
   \<and> (fst (KV_CAS (client s) \<lparr>Key = partialFormat key, Value = newValue, ModifyIndex = index,
       Session = []\<rparr> (bst w)) = Inr False
      \<longrightarrow> fst (AtomicPut s key previous newValue index w) = (False, Some ErrKeyModified))
   \<and> (fst (KV_CAS (client s) \<lparr>Key = partialFormat key, Value = newValue, ModifyIndex = index,
       Session = []\<rparr> (bst w)) = Inl e
      \<longrightarrow> fst (AtomicPut s key previous newValue index w) = (False, Some (BackendError e)))
   \<and> (fst (KV_DeleteCAS (client s) \<lparr>Key = partialFormat key, Value = [], ModifyIndex = index,
       Session = []\<rparr> (bst w)) = Inr True
      \<longrightarrow> fst (AtomicDelete s key oldValue index w) = (True, None))
   \<and> (fst (KV_DeleteCAS (client s) \<lparr>Key = partialFormat key, Value = [], ModifyIndex = index,
       Session = []\<rparr> (bst w)) = Inr False
      \<longrightarrow> fst (AtomicDelete s key oldValue index w) = (False, Some ErrKeyModified))
   \<and> (fst (KV_DeleteCAS (client s) \<lparr>Key = partialFormat key, Value = [], ModifyIndex = index,
       Session = []\<rparr> (bst w)) = Inl e
      \<longrightarrow> fst (AtomicDelete s key oldValue index w) = (False, Some (BackendError e)))"
  by (simp add: AtomicPut_def AtomicDelete_def invoke_def Let_def split: prod.splits sum.splits)

text \<open>
  The three outcomes of each operation on \<open>/foo\<close> at index 7: on the backend that
  grants, on the one that refuses, and on the one that cannot be reached.
\<close>

theorem AtomicPut_AtomicDelete_contract_witness:
  "fst (AtomicPut (new_store config0 granting) ''/foo'' [] [9] 7 world0) = (True, None)
   \<and> fst (AtomicPut (new_store config0 foo_backend) ''/foo'' [] [9] 7 world0)
       = (False, Some ErrKeyModified)
   \<and> fst (AtomicPut (new_store config0 unreachable) ''/foo'' [] [9] 7 world0)
       = (False, Some (BackendError ''connection refused''))
   \<and> fst (AtomicDelete (new_store config0 granting) ''/foo'' [] 7 world0) = (True, None)
   \<and> fst (AtomicDelete (new_store config0 foo_backend) ''/foo'' [] 7 world0)
       = (False, Some ErrKeyModified)
   \<and> fst (AtomicDelete (new_store config0 unreachable) ''/foo'' [] 7 world0)
       = (False, Some (BackendError ''connection refused''))"
proof -
  have g: "fst (KV_CAS (client (new_store config0 granting)) \<lparr>Key = partialFormat ''/foo'',
        Value = [9], ModifyIndex = 7, Session = []\<rparr> (bst world0)) = Inr True"
    "fst (KV_DeleteCAS (client (new_store config0 granting)) \<lparr>Key = partialFormat ''/foo'',
        Value = [], ModifyIndex = 7, Session = []\<rparr> (bst world0)) = Inr True"
    by (simp_all add: new_store_def granting_def)
  have f: "fst (KV_CAS (client (new_store config0 foo_backend)) \<lparr>Key = partialFormat ''/foo'',
        Value = [9], ModifyIndex = 7, Session = []\<rparr> (bst world0)) = Inr False"
    "fst (KV_DeleteCAS (client (new_store config0 foo_backend)) \<lparr>Key = partialFormat ''/foo'',
        Value = [], ModifyIndex = 7, Session = []\<rparr> (bst world0)) = Inr False"
    by (simp_all add: new_store_def foo_backend_def scripted_def)
  have u: "fst (KV_CAS (client (new_store config0 unreachable)) \<lparr>Key = partialFormat ''/foo'',
        Value = [9], ModifyIndex = 7, Session = []\<rparr> (bst world0)) = Inl ''connection refused''"
    "fst (KV_DeleteCAS (client (new_store config0 unreachable)) \<lparr>Key = partialFormat ''/foo'',
        Value = [], ModifyIndex = 7, Session = []\<rparr> (bst world0)) = Inl ''connection refused''"
    by (simp_all add: new_store_def unreachable_def scripted_def)
  note granted = AtomicPut_AtomicDelete_contract [where s = "new_store config0 granting"
      and key = "''/foo''" and newValue = "[9]" and index = 7 and w = world0]
  note refused = AtomicPut_AtomicDelete_contract [where s = "new_store config0 foo_backend"
      and key = "''/foo''" and newValue = "[9]" and index = 7 and w = world0]
  note failed = AtomicPut_AtomicDelete_contract [where s = "new_store config0 unreachable"
      and key = "''/foo''" and newValue = "[9]" and index = 7 and w = world0
      and e = "''connection refused''"]
  from g f u granted refused failed show ?thesis by blast
qed

subsection \<open>C4: a rejected acquire keeps its session\<close>

text \<open>
  C4. When the backend creates the session \<open>sid\<close> and then rejects the session-tagged
  write, \<^verbatim>\<open>Acquire\<close> fails with \<^verbatim>\<open>ErrCannotLock\<close>. The only requests it has sent are
  the creation of the session and the write: the session is not destroyed, and it stays
  in the session map of the store.
\<close>

theorem Acquire_rejected_keeps_session:
  assumes created: "Session_CreateNoChecks (client s) (bst w) = (Inr sid, b1)"
    and rejected: "fst (KV_Acquire (client s)
          \<lparr>Key = partialFormat key, Value = val, ModifyIndex = 0, Session = sid\<rparr> b1)
        = Inr False"
  shows "fst (Acquire s key val w) = ([], Some ErrCannotLock)
    \<and> calls (snd (snd (Acquire s key val w)))
        = calls w @ [Session_CreateNoChecks_call, KV_Acquire_call
            \<lparr>Key = partialFormat key, Value = val, ModifyIndex = 0, Session = sid\<rparr>]
    \<and> Session_Destroy_call sid
        \<notin> set (drop (length (calls w)) (calls (snd (snd (Acquire s key val w)))))
    \<and> sessions (fst (snd (Acquire s key val w))) sid = Some (Ptr SessionHandle)"
  using assms
  by (auto simp: Acquire_def invoke_def Let_def split: prod.splits sum.splits)

text \<open>The refusing backend hands out the session \<open>s1\<close> and rejects the write.\<close>

theorem Acquire_rejected_keeps_session_witness:
  "fst (Acquire (new_store config0 foo_backend) ''/lock/a'' [120] world0)
     = ([], Some ErrCannotLock)
   \<and> calls (snd (snd (Acquire (new_store config0 foo_backend) ''/lock/a'' [120] world0)))
     = [Session_CreateNoChecks_call, KV_Acquire_call
          \<lparr>Key = ''lock/a'', Value = [120], ModifyIndex = 0, Session = ''s1''\<rparr>]
   \<and> sessions (fst (snd (Acquire (new_store config0 foo_backend) ''/lock/a'' [120] world0)))
       ''s1'' = Some (Ptr SessionHandle)"
proof -
  have created: "Session_CreateNoChecks (client (new_store config0 foo_backend)) (bst world0)
      = (Inr ''s1'', 1)"
    by (simp add: client_new_store foo_backend_def scripted_def world0_def)
  have rejected: "fst (KV_Acquire (client (new_store config0 foo_backend))
      \<lparr>Key = partialFormat ''/lock/a'', Value = [120], ModifyIndex = 0, Session = ''s1''\<rparr> 1)
      = Inr False"
    by (simp add: client_new_store foo_backend_def scripted_def)
  show ?thesis
    using Acquire_rejected_keeps_session [OF created rejected]
    by (simp add: world0_def)
qed

subsection \<open>C5: cancelling a watch twice\<close>

text \<open>
  C5 says that \<^verbatim>\<open>CancelWatch\<close> removes the target from the registry and that a second
  \<^verbatim>\<open>CancelWatch\<close> on the same target fails with \<^verbatim>\<open>ErrWatchDoesNotExist\<close>. The code
  stores \<^verbatim>\<open>nil\<close> under the key instead of deleting the key, and its test is the
  presence of the key: with a watch registered on \<open>foo\<close>, the first cancellation
  succeeds, the key is still in the registry (with a \<^verbatim>\<open>nil\<close> entry), and the second
  cancellation succeeds as well.
\<close>

theorem CancelWatch_twice_succeeds:
  "watches (watching foo_backend) ''foo'' = Some (Ptr 1)
   \<and> fst (CancelWatch (watching foo_backend) ''/foo'') = None
   \<and> watches (snd (CancelWatch (watching foo_backend) ''/foo'')) ''foo'' = Some Nil
   \<and> fst (CancelWatch (snd (CancelWatch (watching foo_backend) ''/foo'')) ''/foo'') = None"
  by (simp add: CancelWatch_def watching_def register_def new_store_def)

subsection \<open>C6: releasing a session twice\<close>

text \<open>
  C6 says that \<^verbatim>\<open>Release\<close> removes the id from the session map, so that a second
  \<^verbatim>\<open>Release\<close> of the same id fails with \<^verbatim>\<open>ErrSessionUndefined\<close> and sends nothing.
  The code stores \<^verbatim>\<open>nil\<close> under the id instead of deleting it, and its test is the
  presence of the id: after a successful \<^verbatim>\<open>Acquire\<close> of \<open>/lock/a\<close> (session \<open>s1\<close>), the
  first \<^verbatim>\<open>Release\<close> succeeds and leaves a \<^verbatim>\<open>nil\<close> entry, and the second one passes the
  test and calls \<^verbatim>\<open>Destroy\<close> through the \<^verbatim>\<open>nil\<close> handle.
\<close>

theorem Release_twice_no_SessionUndefined:
  "fst (Acquire (new_store config0 granting) ''/lock/a'' [120] world0) = (''s1'', None)
   \<and> fst (Release (fst (snd (Acquire (new_store config0 granting) ''/lock/a'' [120] world0)))
          ''s1'' (snd (snd (Acquire (new_store config0 granting) ''/lock/a'' [120] world0))))
       = Returns None
   \<and> sessions (fst (snd (Release
          (fst (snd (Acquire (new_store config0 granting) ''/lock/a'' [120] world0))) ''s1''
          (snd (snd (Acquire (new_store config0 granting) ''/lock/a'' [120] world0))))))
        ''s1'' = Some Nil
   \<and> fst (Release (fst (snd (Release
          (fst (snd (Acquire (new_store config0 granting) ''/lock/a'' [120] world0))) ''s1''
          (snd (snd (Acquire (new_store config0 granting) ''/lock/a'' [120] world0))))))
        ''s1'' (snd (snd (Release
          (fst (snd (Acquire (new_store config0 granting) ''/lock/a'' [120] world0))) ''s1''
          (snd (snd (Acquire (new_store config0 granting) ''/lock/a'' [120] world0)))))))
       = Panics NilDereference"
  by (simp add: Acquire_def Release_def invoke_def new_store_def granting_def foo_backend_def
      scripted_def world0_def Let_def)

subsection \<open>C7: \<^verbatim>\<open>Exists\<close> and backend errors\<close>

text \<open>
  C7 says that \<^verbatim>\<open>Exists\<close> never reports success when the read behind it failed with a
  connectivity error. The code returns an error only when the error of \<^verbatim>\<open>Get\<close> is
  \<^verbatim>\<open>ErrKeyNotFound\<close>; any other error falls through to \<^verbatim>\<open>return true, nil\<close>. On the
  backend that cannot be reached, \<^verbatim>\<open>Get\<close> fails with the backend's error and
  \<^verbatim>\<open>Exists\<close> answers that the key exists, with no error.
\<close>

theorem Exists_hides_backend_error:
  "fst (KV_Get (client (new_store config0 unreachable)) (partialFormat ''/foo'') Nil
         (bst world0)) = Inl ''connection refused''
   \<and> fst (Get (new_store config0 unreachable) ''/foo'' world0)
       = Inl (BackendError ''connection refused'')
   \<and> fst (Exists (new_store config0 unreachable) ''/foo'' world0) = (True, None)"
  by (simp add: Exists_def Get_def invoke_def new_store_def unreachable_def scripted_def
      world0_def)

subsection \<open>C8: the values under a prefix\<close>

text \<open>
  C8 says that, for every prefix, \<^verbatim>\<open>GetRange\<close> leaves out the value of the entry whose
  key is the prefix itself. The code lists the entries under the formatted prefix and
  compares each key with the prefix as the caller wrote it. For the prefix \<open>/foo\<close> the
  backend is asked for \<open>foo\<close> and returns the entries \<open>foo\<close> and \<open>foo/a\<close>; no key equals
  \<open>/foo\<close>, so the value of the entry \<open>foo\<close> is returned too. For the prefix \<open>foo\<close> the
  same listing gives the value of \<open>foo/a\<close> only.
\<close>

theorem GetRange_leading_separator_keeps_prefix_entry:
  "fst (KV_List (client (new_store config0 foo_backend)) (partialFormat ''/foo'') (bst world0))
     = Inr ([foo_pair, foo_a_pair], \<lparr>QueryMeta.LastIndex = 7\<rparr>)
   \<and> fst (GetRange (new_store config0 foo_backend) ''/foo'' world0)
       = Inr [Value foo_pair, Value foo_a_pair]
   \<and> fst (GetRange (new_store config0 foo_backend) ''foo'' world0) = Inr [Value foo_a_pair]"
  by (simp add: GetRange_def invoke_def new_store_def foo_backend_def scripted_def world0_def
      foo_pair_def foo_a_pair_def)

subsection \<open>C9: cancelling while a long-poll read is in flight\<close>

text \<open>
  C9 says that \<^verbatim>\<open>CancelWatch\<close> unblocks the loop while its long-poll read is in flight.
  \<^verbatim>\<open>CancelWatch\<close> only overwrites the registry entry; nothing reaches the read, which
  was issued with the heartbeat as its wait time. Take a watch on \<open>foo\<close> whose
  goroutine has done its lookup, and cancel it at that point. The cancellation succeeds
  and sends nothing. The goroutine then completes its read with the options it had
  (waiting on index 0 for up to 30), assigns the index through the pointer it holds and
  has a notification to send: the channel is not closed. Its next lookup finds the
  \<^verbatim>\<open>nil\<close> entry, and the iteration that starts there is a nil dereference. (Time
  itself is not part of the model.)
\<close>

theorem CancelWatch_does_not_interrupt_read:
  "waitForChange_lookup (watching foo_backend) ''foo'' = Registered 1 first_poll
   \<and> fst (CancelWatch (watching foo_backend) ''/foo'') = None
   \<and> waitForChange_poll ''foo'' (Registered 1 first_poll)
         (snd (CancelWatch (watching foo_backend) ''/foo'')) world0
       = (Sent 7,
          (watching foo_backend)\<lparr>watches := (watches (watching foo_backend))(''foo'' \<mapsto> Nil),
             heap := (heap (watching foo_backend))
               (1 := (heap (watching foo_backend) 1)\<lparr>Watch.LastIndex := 7\<rparr>)\<rparr>,
          \<lparr>bst = 1, calls = [KV_Get_call ''foo'' (Ptr first_poll)]\<rparr>)
   \<and> waitForChange_lookup ((watching foo_backend)\<lparr>watches :=
             (watches (watching foo_backend))(''foo'' \<mapsto> Nil),
             heap := (heap (watching foo_backend))
               (1 := (heap (watching foo_backend) 1)\<lparr>Watch.LastIndex := 7\<rparr>)\<rparr>) ''foo''
       = NilWatch
   \<and> fst (waitForChange_poll ''foo'' NilWatch
         ((watching foo_backend)\<lparr>watches := (watches (watching foo_backend))(''foo'' \<mapsto> Nil),
             heap := (heap (watching foo_backend))
               (1 := (heap (watching foo_backend) 1)\<lparr>Watch.LastIndex := 7\<rparr>)\<rparr>)
         \<lparr>bst = 1, calls = [KV_Get_call ''foo'' (Ptr first_poll)]\<rparr>) = Crashed"
  by (simp add: CancelWatch_def waitForChange_lookup_def waitForChange_poll_def
      invoke_def watching_def first_poll_def register_def new_store_def foo_backend_def
      foo_pair_def scripted_def world0_def)

subsection \<open>C10: the first endpoint\<close>

text \<open>
  C10. \<^verbatim>\<open>InitializeConsul\<close> panics with an index out of range exactly when the list of
  endpoints is empty. Otherwise its result does not depend on the endpoints after the
  first, and the first endpoint is the backend address: the client is what
  \<^verbatim>\<open>api.NewClient\<close> makes of a configuration whose address is the first endpoint,
  whatever the options, and the store keeps the configuration as \<^verbatim>\<open>api.NewClient\<close>
  leaves it.
\<close>

theorem InitializeConsul_first_endpoint:
  "(InitializeConsul dc nc hc endpoints options = Panics IndexOutOfRange \<longleftrightarrow> endpoints = [])
   \<and> (\<forall>e rest rest'. InitializeConsul dc nc hc (e # rest) options
         = InitializeConsul dc nc hc (e # rest') options)
   \<and> (\<forall>e rest. \<exists>cfg hc1. Address cfg = e
         \<and> InitializeConsul dc nc hc (e # rest) options
           = (case nc cfg hc1 of
                (Inl err, cfg', hc') \<Rightarrow> Returns (Inl (BackendError err), hc')
              | (Inr c, cfg', hc') \<Rightarrow> Returns (Inr (new_store cfg' c), hc')))"
proof (intro conjI allI)
  show "InitializeConsul dc nc hc endpoints options = Panics IndexOutOfRange
      \<longleftrightarrow> endpoints = []"
    by (auto simp: InitializeConsul_def split: list.splits prod.splits sum.splits)
next
  fix e rest rest'
  show "InitializeConsul dc nc hc (e # rest) options
      = InitializeConsul dc nc hc (e # rest') options"
    by (simp add: InitializeConsul_def)
next
  fix e :: string and rest :: "string list"
  obtain cfg hc1
    where env: "SetOptions options (dc\<lparr>Address := e, Scheme := ''http''\<rparr>, hc) = (cfg, hc1)"
    by (cases "SetOptions options (dc\<lparr>Address := e, Scheme := ''http''\<rparr>, hc)") auto
  have "Address (fst (SetOptions options (dc\<lparr>Address := e, Scheme := ''http''\<rparr>, hc))) = e"
    by (simp add: SetOptions_Address)
  with env have "Address cfg = e" by simp
  moreover from env have "InitializeConsul dc nc hc (e # rest) options
      = (case nc cfg hc1 of
           (Inl err, cfg', hc') \<Rightarrow> Returns (Inl (BackendError err), hc')
         | (Inr c, cfg', hc') \<Rightarrow> Returns (Inr (new_store cfg' c), hc'))"
    by (simp add: InitializeConsul_def)
  ultimately show "\<exists>cfg hc1. Address cfg = e
      \<and> InitializeConsul dc nc hc (e # rest) options
        = (case nc cfg hc1 of
             (Inl err, cfg', hc') \<Rightarrow> Returns (Inl (BackendError err), hc')
           | (Inr c, cfg', hc') \<Rightarrow> Returns (Inr (new_store cfg' c), hc'))"
    by blast
qed

text \<open>
  With a library that reaches a backend only at \<open>10.0.0.1:8500\<close>: no endpoint is a
  panic; that address first gives a store on it, with the timeout of the options; the
  same address in second place gives the library's error.
\<close>

theorem InitializeConsul_first_endpoint_witness:
  "InitializeConsul config0 (\<lambda>cfg h. (if Address cfg = ''10.0.0.1:8500'' then Inr foo_backend
       else Inl ''no route to host'', cfg, h)) \<lparr>Transport = Nil\<rparr> [] [DurationOption 5]
     = Panics IndexOutOfRange
   \<and> InitializeConsul config0 (\<lambda>cfg h. (if Address cfg = ''10.0.0.1:8500'' then Inr foo_backend
       else Inl ''no route to host'', cfg, h)) \<lparr>Transport = Nil\<rparr>
       [''10.0.0.1:8500'', ''10.0.0.2:8500''] [DurationOption 5]
     = Returns (Inr (new_store (config0\<lparr>Address := ''10.0.0.1:8500'', Config.WaitTime := 5\<rparr>)
         foo_backend), \<lparr>Transport = Nil\<rparr>)
   \<and> InitializeConsul config0 (\<lambda>cfg h. (if Address cfg = ''10.0.0.1:8500'' then Inr foo_backend
       else Inl ''no route to host'', cfg, h)) \<lparr>Transport = Nil\<rparr>
       [''10.0.0.2:8500'', ''10.0.0.1:8500''] [DurationOption 5]
     = Returns (Inl (BackendError ''no route to host''), \<lparr>Transport = Nil\<rparr>)
   \<and> InitializeConsul config0 (\<lambda>cfg h. (if Address cfg = ''10.0.0.1:8500'' then Inr foo_backend
       else Inl ''no route to host'', cfg, h)) \<lparr>Transport = Nil\<rparr>
       [''10.0.0.1:8500'', ''10.0.0.2:8500''] [DurationOption 5]
     = InitializeConsul config0 (\<lambda>cfg h. (if Address cfg = ''10.0.0.1:8500''
         then Inr foo_backend else Inl ''no route to host'', cfg, h)) \<lparr>Transport = Nil\<rparr>
       [''10.0.0.1:8500''] [DurationOption 5]"
proof -
  let ?nc = "\<lambda>cfg h. (if Address cfg = ''10.0.0.1:8500'' then Inr foo_backend
       else Inl ''no route to host'', cfg, h :: http_Client)"
  let ?hc = "\<lparr>Transport = Nil\<rparr>"
  note inst = InitializeConsul_first_endpoint [of config0 ?nc ?hc _ "[DurationOption 5]"]
  note none = inst [of "[]", THEN conjunct1, THEN iffD2, OF refl]
  note rest = inst [of "[]", THEN conjunct2, THEN conjunct1, rule_format,
      of "''10.0.0.1:8500''" "[''10.0.0.2:8500'']" "[]"]
  from inst [of "[]", THEN conjunct2, THEN conjunct2, rule_format,
      of "''10.0.0.1:8500''" "[''10.0.0.2:8500'']"]
  obtain cfg hc1 where addr: "Address cfg = ''10.0.0.1:8500''"
    and made: "InitializeConsul config0 ?nc ?hc [''10.0.0.1:8500'', ''10.0.0.2:8500'']
        [DurationOption 5]
      = (case ?nc cfg hc1 of
           (Inl err, cfg', hc') \<Rightarrow> Returns (Inl (BackendError err), hc')
         | (Inr c, cfg', hc') \<Rightarrow> Returns (Inr (new_store cfg' c), hc'))"
    by blast
  have first: "InitializeConsul config0 ?nc ?hc [''10.0.0.1:8500'', ''10.0.0.2:8500'']
        [DurationOption 5]
      = Returns (Inr (new_store (config0\<lparr>Address := ''10.0.0.1:8500'', Config.WaitTime := 5\<rparr>)
          foo_backend), ?hc)"
    using addr made by (simp add: InitializeConsul_def config0_def SetTimeout_def)
  have second: "InitializeConsul config0 ?nc ?hc [''10.0.0.2:8500'', ''10.0.0.1:8500'']
        [DurationOption 5]
      = Returns (Inl (BackendError ''no route to host''), ?hc)"
    by (simp add: InitializeConsul_def config0_def SetTimeout_def)
  from none first second rest show ?thesis by blast
qed

end
